theory Spec2Isabelle
  imports Main
begin

section \<open>PubMed fetcher: search, detail extraction and CSV sink\<close>

text \<open>
  A shallow embedding of \<^verbatim>\<open>pubmed_fetcher/core.py\<close> and \<^verbatim>\<open>pubmed_fetcher/cli.py\<close>.
  The remote endpoints, the JSON decoder and the document parser are parameters of the
  functions that call them; what the program prints, requests and writes is returned
  as a list of events next to the result. A Python exception that leaves a function is
  the \<open>Inl\<close> summand of its result.
\<close>

subsection \<open>Python strings\<close>

text \<open>
  A \<open>char\<close> stands for one code point below 256. \<open>lower\<close> is \<^verbatim>\<open>str.lower\<close> on that
  range: the letters A to Z and the upper-case letters of Latin-1 (192 to 222 without
  the multiplication sign 215) move up by 32.
\<close>

definition lower_char :: "char \<Rightarrow> char" where
  "lower_char c =
     (let n = (of_char c :: nat)
      in if (65 \<le> n \<and> n \<le> 90) \<or> (192 \<le> n \<and> n \<le> 222 \<and> n \<noteq> 215)
         then char_of (n + 32) else c)"

definition lower :: "string \<Rightarrow> string" where
  "lower s = map lower_char s"

text \<open>\<open>startswith s k\<close> is \<^verbatim>\<open>s.startswith(k)\<close>; \<open>contains k s\<close> is \<^verbatim>\<open>k in s\<close>.\<close>

fun startswith :: "string \<Rightarrow> string \<Rightarrow> bool" where
  "startswith s [] = True"
| "startswith [] (k # ks) = False"
| "startswith (c # cs) (k # ks) = (c = k \<and> startswith cs ks)"

fun contains :: "string \<Rightarrow> string \<Rightarrow> bool" where
  "contains k [] = (k = [])"
| "contains k (c # cs) = (startswith (c # cs) k \<or> contains k cs)"

text \<open>
  \<^verbatim>\<open>s.split(sep)\<close> for a non-empty separator: the text is scanned from the left, an
  occurrence of the separator closes the current piece and the scan goes on behind it.
  \<open>cur\<close> holds the current piece in reverse.
\<close>

fun split_from :: "string \<Rightarrow> string \<Rightarrow> string \<Rightarrow> string list" where
  "split_from sep cur [] = [rev cur]"
| "split_from sep cur (c # cs) =
     (if sep \<noteq> [] \<and> startswith (c # cs) sep
      then rev cur # split_from sep [] (drop (length sep - 1) cs)
      else split_from sep (c # cur) cs)"

definition split :: "string \<Rightarrow> string \<Rightarrow> string list" where
  "split s sep = split_from sep [] s"

text \<open>
  \<^verbatim>\<open>str.strip()\<close> removes white space at both ends. Below 256 the white-space code
  points are 9 to 13, 28 to 32, 133 and 160.
\<close>

definition is_space :: "char \<Rightarrow> bool" where
  "is_space c =
     (let n = (of_char c :: nat)
      in (9 \<le> n \<and> n \<le> 13) \<or> (28 \<le> n \<and> n \<le> 32) \<or> n = 133 \<or> n = 160)"

definition strip :: "string \<Rightarrow> string" where
  "strip s = rev (dropWhile is_space (rev (dropWhile is_space s)))"

text \<open>\<open>join sep xs\<close> is \<^verbatim>\<open>sep.join(xs)\<close> on a list of strings.\<close>

fun join :: "string \<Rightarrow> string list \<Rightarrow> string" where
  "join sep [] = []"
| "join sep [x] = x"
| "join sep (x # y # ys) = x @ sep @ join sep (y # ys)"

subsection \<open>Exceptions, events and the outside world\<close>

datatype error =
    RequestException string
  | AttributeError
  | IndexError
  | TypeError
  | KeyError
  | ValueError
  | ParseError
  | OSError

datatype pval = PStr string | PInt int

type_synonym params = "(string \<times> pval) list"

text \<open>
  \<open>http_get url params\<close> stands for \<^verbatim>\<open>requests.get(url, params=params)\<close> followed by
  \<^verbatim>\<open>raise_for_status()\<close>: the body text, or the exception raised. Every transport and
  HTTP-status failure of the requests library is a \<open>RequestException\<close>, carrying the
  text that \<^verbatim>\<open>str(e)\<close> gives.
\<close>

type_synonym http = "string \<Rightarrow> params \<Rightarrow> error + string"

subsection \<open>Element trees\<close>

text \<open>
  An element of \<^verbatim>\<open>xml.etree.ElementTree\<close>: its tag, its \<^verbatim>\<open>.text\<close> (\<open>etext\<close>, which is
  \<^verbatim>\<open>None\<close> for an element without text) and its children in document order.
\<close>

datatype element = Element (tag: string) (etext: "string option") (children: "element list")

text \<open>\<open>iter t e\<close> is \<^verbatim>\<open>e.iter(t)\<close>: \<open>e\<close> and its descendants with tag \<open>t\<close>, in document order.\<close>

fun iter :: "string \<Rightarrow> element \<Rightarrow> element list" where
  "iter t (Element g x cs) =
     (if g = t then [Element g x cs] else []) @ concat (map (iter t) cs)"

text \<open>
  The four path shapes the program uses: \<^verbatim>\<open>e.findall(".//t")\<close>, \<^verbatim>\<open>e.find(".//t")\<close>,
  \<^verbatim>\<open>e.find("t")\<close> and \<^verbatim>\<open>e.find(".//t1/t2")\<close>. The descendant step leaves out \<open>e\<close>
  itself; \<open>find\<close> is the first element of the matching sequence, or \<open>None\<close>.
\<close>

definition findall_desc :: "string \<Rightarrow> element \<Rightarrow> element list" where
  "findall_desc t e = concat (map (iter t) (children e))"

definition first :: "'a list \<Rightarrow> 'a option" where
  "first xs = (case xs of [] \<Rightarrow> None | x # _ \<Rightarrow> Some x)"

definition find_desc :: "string \<Rightarrow> element \<Rightarrow> element option" where
  "find_desc t e = first (findall_desc t e)"

definition findall_child :: "string \<Rightarrow> element \<Rightarrow> element list" where
  "findall_child t e = filter (\<lambda>c. tag c = t) (children e)"

definition find_child :: "string \<Rightarrow> element \<Rightarrow> element option" where
  "find_child t e = first (findall_child t e)"

definition find_desc_child :: "string \<Rightarrow> string \<Rightarrow> element \<Rightarrow> element option" where
  "find_desc_child t1 t2 e = first (concat (map (findall_child t2) (findall_desc t1 e)))"

subsection \<open>Records and events\<close>

text \<open>
  The dictionary built for one article. The first three values are \<^verbatim>\<open>.text\<close> of an
  element and can be \<^verbatim>\<open>None\<close>.
\<close>

record paper =
  PubmedID :: "string option"
  Title :: "string option"
  Publication_Date :: "string option"
  Non_academic_Authors :: string
  Company_Affiliations :: string
  Corresponding_Author_Email :: string

datatype event =
    Printed string
  | PrintedPaper paper
  | HttpGet string params
  | ToCsv string "string list list"

type_synonym 'a outcome = "event list \<times> (error + 'a)"

definition PUBMED_SEARCH_URL :: string where
  "PUBMED_SEARCH_URL = ''https://eutils.ncbi.nlm.nih.gov/entrez/eutils/esearch.fcgi''"

definition PUBMED_FETCH_URL :: string where
  "PUBMED_FETCH_URL = ''https://eutils.ncbi.nlm.nih.gov/entrez/eutils/efetch.fcgi''"

subsection \<open>\<^verbatim>\<open>fetch_paper_ids\<close>\<close>

definition search_params :: "string \<Rightarrow> int \<Rightarrow> params" where
  "search_params query max_results =
     [(''db'', PStr ''pubmed''), (''term'', PStr query),
      (''retmax'', PInt max_results), (''retmode'', PStr ''json'')]"

text \<open>
  \<open>json_idlist body\<close> stands for \<^verbatim>\<open>response.json()["esearchresult"]["idlist"]\<close>: the
  identifier list, or the exception that decoding or a missing key raises.
  The \<^verbatim>\<open>except\<close> clause catches a \<open>RequestException\<close> raised anywhere in the
  \<^verbatim>\<open>try\<close> block, prints it and returns the empty list; any other exception leaves
  the function.
\<close>

definition fetch_paper_ids ::
  "http \<Rightarrow> (string \<Rightarrow> error + string list) \<Rightarrow> string \<Rightarrow> int \<Rightarrow> string list outcome" where
  "fetch_paper_ids http_get json_idlist query max_results =
     (let params = search_params query max_results;
          body = (case http_get PUBMED_SEARCH_URL params of
                    Inl e \<Rightarrow> Inl e
                  | Inr response \<Rightarrow> json_idlist response)
      in case body of
           Inr idlist \<Rightarrow> ([HttpGet PUBMED_SEARCH_URL params], Inr idlist)
         | Inl (RequestException e) \<Rightarrow>
             ([HttpGet PUBMED_SEARCH_URL params,
               Printed (''Error fetching paper IDs: '' @ e)], Inr [])
         | Inl e \<Rightarrow> ([HttpGet PUBMED_SEARCH_URL params], Inl e))"

subsection \<open>\<^verbatim>\<open>fetch_paper_details\<close>\<close>

text \<open>The three variables the author loop updates.\<close>

record author_state =
  non_academic_authors :: "string option list"
  company_affiliations :: "string list"
  corresponding_email :: string

definition keyword_list :: "string list" where
  "keyword_list = [''pharmaceutical'', ''biotech'', ''company'', ''corporation'']"

text \<open>
  The body of \<^verbatim>\<open>for author in authors\<close>. \<^verbatim>\<open>affiliation.text.lower()\<close> raises
  \<open>AttributeError\<close> when the text is \<^verbatim>\<open>None\<close>; \<^verbatim>\<open>split("email:")[1]\<close> raises
  \<open>IndexError\<close> when the split has one piece only. \<^verbatim>\<open>last_name.text\<close> is appended
  as it is, also when it is \<^verbatim>\<open>None\<close>.
\<close>

definition process_author :: "element \<Rightarrow> author_state \<Rightarrow> error + author_state" where
  "process_author author st =
     (case find_desc_child ''AffiliationInfo'' ''Affiliation'' author of
        None \<Rightarrow> Inr st
      | Some affiliation \<Rightarrow>
          (case etext affiliation of
             None \<Rightarrow> Inl AttributeError
           | Some original \<Rightarrow>
               (let affiliation_text = lower original;
                    st1 =
                      (if list_ex (\<lambda>keyword. contains keyword affiliation_text) keyword_list
                       then
                         (let st0 =
                                (case find_child ''LastName'' author of
                                   None \<Rightarrow> st
                                 | Some last_name \<Rightarrow>
                                     st\<lparr>non_academic_authors :=
                                          non_academic_authors st @ [etext last_name]\<rparr>)
                          in st0\<lparr>company_affiliations :=
                                   company_affiliations st0 @ [original]\<rparr>)
                       else st)
                in if contains ''corresponding'' affiliation_text
                      \<and> contains ''email'' affiliation_text
                   then (case split affiliation_text ''email:'' of
                           _ # piece # _ \<Rightarrow> Inr (st1\<lparr>corresponding_email := strip piece\<rparr>)
                         | _ \<Rightarrow> Inl IndexError)
                   else Inr st1)))"

fun process_authors :: "element list \<Rightarrow> author_state \<Rightarrow> error + author_state" where
  "process_authors [] st = Inr st"
| "process_authors (author # authors) st =
     (case process_author author st of
        Inl e \<Rightarrow> Inl e
      | Inr st' \<Rightarrow> process_authors authors st')"

definition initial_state :: author_state where
  "initial_state =
     \<lparr>non_academic_authors = [], company_affiliations = [], corresponding_email = ''N/A''\<rparr>"

text \<open>\<^verbatim>\<open>", ".join(xs)\<close> on a list that may hold \<^verbatim>\<open>None\<close>, which raises \<open>TypeError\<close>.\<close>

definition join_items :: "string \<Rightarrow> string option list \<Rightarrow> error + string" where
  "join_items sep xs =
     (if list_ex (\<lambda>x. x = None) xs then Inl TypeError else Inr (join sep (map the xs)))"

text \<open>
  The body of \<^verbatim>\<open>for article in root.findall(".//PubmedArticle")\<close>: the dictionary
  appended for one article. \<^verbatim>\<open>article.find(".//PMID").text\<close> raises \<open>AttributeError\<close>
  when there is no such node.
\<close>

definition process_article :: "element \<Rightarrow> error + paper" where
  "process_article article =
     (case find_desc ''PMID'' article of
        None \<Rightarrow> Inl AttributeError
      | Some pmid \<Rightarrow>
          (let pubmed_id = etext pmid;
               title = (case find_desc ''ArticleTitle'' article of
                          Some t \<Rightarrow> etext t | None \<Rightarrow> Some ''N/A'');
               pub_date = (case find_desc_child ''PubDate'' ''Year'' article of
                             Some y \<Rightarrow> etext y | None \<Rightarrow> Some ''N/A'');
               authors = findall_desc ''Author'' article
           in case process_authors authors initial_state of
                Inl e \<Rightarrow> Inl e
              | Inr st \<Rightarrow>
                  (case (if non_academic_authors st \<noteq> []
                         then join_items '', '' (non_academic_authors st)
                         else Inr ''N/A'') of
                     Inl e \<Rightarrow> Inl e
                   | Inr names \<Rightarrow>
                       Inr \<lparr>PubmedID = pubmed_id,
                            Title = title,
                            Publication_Date = pub_date,
                            Non_academic_Authors = names,
                            Company_Affiliations =
                              (if company_affiliations st \<noteq> []
                               then join '', '' (company_affiliations st) else ''N/A''),
                            Corresponding_Author_Email = corresponding_email st\<rparr>)))"

fun process_articles :: "element list \<Rightarrow> paper list \<Rightarrow> error + paper list" where
  "process_articles [] papers = Inr papers"
| "process_articles (article # articles) papers =
     (case process_article article of
        Inl e \<Rightarrow> Inl e
      | Inr p \<Rightarrow> process_articles articles (papers @ [p]))"

definition fetch_params :: "string list \<Rightarrow> params" where
  "fetch_params paper_ids =
     [(''db'', PStr ''pubmed''), (''id'', PStr (join '','' paper_ids)),
      (''retmode'', PStr ''xml'')]"

text \<open>
  \<open>fromstring\<close> stands for \<^verbatim>\<open>ET.fromstring\<close>: the root element, or the exception the
  parser raises. As in \<open>fetch_paper_ids\<close>, only a \<open>RequestException\<close> is caught.
\<close>

definition fetch_paper_details ::
  "http \<Rightarrow> (string \<Rightarrow> error + element) \<Rightarrow> string list \<Rightarrow> paper list outcome" where
  "fetch_paper_details http_get fromstring paper_ids =
     (if paper_ids = [] then ([Printed ''No paper IDs provided.''], Inr [])
      else
        (let params = fetch_params paper_ids;
             body =
               (case http_get PUBMED_FETCH_URL params of
                  Inl e \<Rightarrow> Inl e
                | Inr response \<Rightarrow>
                    (case fromstring response of
                       Inl e \<Rightarrow> Inl e
                     | Inr root \<Rightarrow>
                         process_articles (findall_desc ''PubmedArticle'' root) []))
         in case body of
              Inr papers \<Rightarrow> ([HttpGet PUBMED_FETCH_URL params], Inr papers)
            | Inl (RequestException e) \<Rightarrow>
                ([HttpGet PUBMED_FETCH_URL params,
                  Printed (''Error fetching paper details: '' @ e)], Inr [])
            | Inl e \<Rightarrow> ([HttpGet PUBMED_FETCH_URL params], Inl e)))"

subsection \<open>\<^verbatim>\<open>save_to_csv\<close>\<close>

text \<open>
  \<^verbatim>\<open>pd.DataFrame(papers).to_csv(filename, index=False)\<close> is the event \<open>ToCsv\<close> with
  the table pandas writes: the header row with the dictionary keys, then one row per
  dictionary, a \<^verbatim>\<open>None\<close> value as the empty cell. Quoting of cells is not part
  of the model.
\<close>

definition csv_header :: "string list" where
  "csv_header =
     [''PubmedID'', ''Title'', ''Publication Date'', ''Non-academic Author(s)'',
      ''Company Affiliation(s)'', ''Corresponding Author Email'']"

definition cell :: "string option \<Rightarrow> string" where
  "cell v = (case v of None \<Rightarrow> [] | Some s \<Rightarrow> s)"

definition csv_row :: "paper \<Rightarrow> string list" where
  "csv_row p =
     [cell (PubmedID p), cell (Title p), cell (Publication_Date p),
      Non_academic_Authors p, Company_Affiliations p, Corresponding_Author_Email p]"

definition to_csv :: "paper list \<Rightarrow> string list list" where
  "to_csv papers = csv_header # map csv_row papers"

text \<open>
  The write can fail: \<open>file_write filename\<close> is the exception that \<^verbatim>\<open>to_csv\<close> raises
  for the path (a missing directory, a directory in place of a file, no permission),
  or \<open>None\<close> when the file is written. \<open>save_to_csv\<close> has no handler, so the exception
  leaves it before line 86 prints, and nothing has been written.
\<close>

type_synonym file_system = "string \<Rightarrow> error option"

definition save_to_csv :: "file_system \<Rightarrow> paper list \<Rightarrow> string \<Rightarrow> unit outcome" where
  "save_to_csv file_write papers filename =
     (if papers \<noteq> []
      then (case file_write filename of
              Some e \<Rightarrow> ([], Inl e)
            | None \<Rightarrow>
                ([ToCsv filename (to_csv papers),
                  Printed (''Results saved to '' @ filename)], Inr ()))
      else ([Printed ''No papers to save.''], Inr ()))"

subsection \<open>\<^verbatim>\<open>get_papers_list\<close>\<close>

text \<open>
  Lines 19 and 20 of \<^verbatim>\<open>cli.py\<close>: the search, then the detail fetch on its result.
  \<open>fetch_paper_ids\<close> is called with its default \<^verbatim>\<open>max_results = 10\<close>.
\<close>

definition fetch_papers ::
  "http \<Rightarrow> (string \<Rightarrow> error + string list) \<Rightarrow> (string \<Rightarrow> error + element) \<Rightarrow> string
     \<Rightarrow> paper list outcome" where
  "fetch_papers http_get json_idlist fromstring query =
     (case fetch_paper_ids http_get json_idlist query 10 of
        (tr1, Inl e) \<Rightarrow> (tr1, Inl e)
      | (tr1, Inr paper_ids) \<Rightarrow>
          (case fetch_paper_details http_get fromstring paper_ids of
             (tr2, r) \<Rightarrow> (tr1 @ tr2, r)))"

text \<open>
  The command. \<^verbatim>\<open>typer.echo\<close> writes to standard output like \<^verbatim>\<open>print\<close>; an optional
  file name is \<^verbatim>\<open>None\<close> or a string, and \<^verbatim>\<open>if file\<close> holds for a non-empty string.
\<close>

definition show_file :: "string option \<Rightarrow> string" where
  "show_file file = (case file of None \<Rightarrow> ''None'' | Some f \<Rightarrow> f)"

definition get_papers_list ::
  "http \<Rightarrow> (string \<Rightarrow> error + string list) \<Rightarrow> (string \<Rightarrow> error + element)
     \<Rightarrow> file_system \<Rightarrow> string \<Rightarrow> string option \<Rightarrow> bool \<Rightarrow> unit outcome" where
  "get_papers_list http_get json_idlist fromstring file_write query file debug =
     (let tr0 =
            (if debug
             then [Printed ''Debug mode enabled'', Printed (''Query: '' @ query),
                   Printed (''File: '' @ show_file file), Printed ''Debug: True'']
             else [])
            @ [Printed (''Fetching papers for query: '' @ query)]
      in case fetch_papers http_get json_idlist fromstring query of
           (tr, Inl e) \<Rightarrow> (tr0 @ tr, Inl e)
         | (tr, Inr papers) \<Rightarrow>
             (case file of
                Some (c # cs) \<Rightarrow>
                  (case save_to_csv file_write papers (c # cs) of
                     (tr3, r) \<Rightarrow> (tr0 @ tr @ tr3, r))
              | _ \<Rightarrow> (tr0 @ tr @ map PrintedPaper papers, Inr ())))"


subsection \<open>The guard of the e-mail assignment\<close>

text \<open>
  \<open>sets_email author\<close> holds when the loop body reaches line 65 for \<open>author\<close>: there
  is an affiliation node with a text, and the lower-cased text contains both
  \<^verbatim>\<open>corresponding\<close> and \<^verbatim>\<open>email\<close>.
\<close>

definition sets_email :: "element \<Rightarrow> bool" where
  "sets_email author =
     (case find_desc_child ''AffiliationInfo'' ''Affiliation'' author of
        None \<Rightarrow> False
      | Some affiliation \<Rightarrow>
          (case etext affiliation of
             None \<Rightarrow> False
           | Some original \<Rightarrow>
               contains ''corresponding'' (lower original)
               \<and> contains ''email'' (lower original)))"

subsection \<open>Example documents\<close>

text \<open>
  An author named Doe with the given affiliation text, an author without a last name,
  and a document of one article with identifier 1 and the given authors.
\<close>

definition example_author :: "string \<Rightarrow> element" where
  "example_author t =
     Element ''Author'' None
       [Element ''LastName'' (Some ''Doe'') [],
        Element ''AffiliationInfo'' None [Element ''Affiliation'' (Some t) []]]"

definition example_collective :: "string \<Rightarrow> element" where
  "example_collective t =
     Element ''Author'' None
       [Element ''CollectiveName'' (Some ''Study Group'') [],
        Element ''AffiliationInfo'' None [Element ''Affiliation'' (Some t) []]]"

definition example_root :: "element list \<Rightarrow> element" where
  "example_root authors =
     Element ''PubmedArticleSet'' None
       [Element ''PubmedArticle'' None
          [Element ''MedlineCitation'' None
             [Element ''PMID'' (Some ''1'') [],
              Element ''Article'' None [Element ''AuthorList'' None authors]]]]"

definition example_root_no_pmid :: element where
  "example_root_no_pmid =
     Element ''PubmedArticleSet'' None
       [Element ''PubmedArticle'' None
          [Element ''MedlineCitation'' None
             [Element ''Article'' None [Element ''ArticleTitle'' (Some ''A title'') []]]]]"

definition example_http :: http where
  "example_http url params = Inr ''<PubmedArticleSet/>''"

definition failing_http :: http where
  "failing_http url params = Inl (RequestException ''503 Server Error'')"

definition example_file_system :: file_system where
  "example_file_system filename =
     (if startswith filename ''/no/such/dir/'' then Some OSError else None)"

definition example_paper :: paper where
  "example_paper =
     \<lparr>PubmedID = Some ''1'', Title = Some ''N/A'', Publication_Date = Some ''N/A'',
      Non_academic_Authors = ''N/A'', Company_Affiliations = ''N/A'',
      Corresponding_Author_Email = ''N/A''\<rparr>"

section \<open>Properties\<close>

subsection \<open>Splitting and the two iterations\<close>

lemma split_from_absent:
  "sep \<noteq> [] \<Longrightarrow> \<not> contains sep s \<Longrightarrow> split_from sep cur s = [rev cur @ s]"
  by (induction s arbitrary: cur) auto

lemma split_absent: "\<not> contains ''email:'' s \<Longrightarrow> split s ''email:'' = [s]"
  by (simp add: split_def split_from_absent)

lemma process_articles_append:
  "process_articles articles acc = Inr papers \<Longrightarrow>
     \<exists>ps. papers = acc @ ps \<and> map process_article articles = map Inr ps"
proof (induction articles arbitrary: acc)
  case Nil
  then show ?case by simp
next
  case (Cons a as)
  from Cons.prems obtain p where p: "process_article a = Inr p"
    and rest: "process_articles as (acc @ [p]) = Inr papers"
    by (auto split: sum.splits)
  from Cons.IH [OF rest] obtain ps where "papers = (acc @ [p]) @ ps"
    and "map process_article as = map Inr ps" by blast
  with p show ?case by (intro exI [of _ "p # ps"]) simp
qed

lemma process_articles_fail:
  "a \<in> set articles \<Longrightarrow> process_article a = Inl e \<Longrightarrow>
     \<exists>e'. process_articles articles acc = Inl e'"
proof (induction articles arbitrary: acc)
  case Nil
  then show ?case by simp
next
  case (Cons b bs)
  show ?case
  proof (cases "process_article b")
    case (Inl e')
    then show ?thesis by simp
  next
    case (Inr p)
    with Cons.prems have "a \<in> set bs" by auto
    from Cons.IH [OF this Cons.prems(2)] Inr show ?thesis by simp
  qed
qed

lemma process_author_error:
  "process_author author st = Inl e \<Longrightarrow> e = AttributeError \<or> e = IndexError"
  by (auto simp: process_author_def Let_def split: option.splits if_splits list.splits)

lemma process_authors_error:
  "process_authors authors st = Inl e \<Longrightarrow> e = AttributeError \<or> e = IndexError"
  by (induction authors arbitrary: st) (auto split: sum.splits dest: process_author_error)

lemma process_article_error:
  "process_article a = Inl e \<Longrightarrow> e = AttributeError \<or> e = IndexError \<or> e = TypeError"
  by (auto simp: process_article_def Let_def join_items_def
           split: option.splits sum.splits if_splits dest: process_authors_error)

lemma process_articles_error:
  "process_articles articles acc = Inl e \<Longrightarrow>
     e = AttributeError \<or> e = IndexError \<or> e = TypeError"
  by (induction articles arbitrary: acc) (auto split: sum.splits dest: process_article_error)

text \<open>
  When the request and the parse succeed, the function returns exactly what the
  article loop returns: the loop raises no \<open>RequestException\<close>, so nothing is caught.
\<close>

lemma fetch_paper_details_body:
  assumes "paper_ids \<noteq> []"
      and "http_get PUBMED_FETCH_URL (fetch_params paper_ids) = Inr response"
      and "fromstring response = Inr root"
  shows "fetch_paper_details http_get fromstring paper_ids =
           ([HttpGet PUBMED_FETCH_URL (fetch_params paper_ids)],
            process_articles (findall_desc ''PubmedArticle'' root) [])"
proof (cases "process_articles (findall_desc ''PubmedArticle'' root) []")
  case (Inl e)
  from process_articles_error [OF Inl] Inl assms show ?thesis
    by (auto simp: fetch_paper_details_def)
next
  case (Inr papers)
  with assms show ?thesis by (simp add: fetch_paper_details_def)
qed

lemma fetch_paper_details_papers:
  assumes "paper_ids \<noteq> []"
      and "http_get PUBMED_FETCH_URL (fetch_params paper_ids) = Inr response"
      and "fromstring response = Inr root"
      and "fetch_paper_details http_get fromstring paper_ids = (tr, Inr papers)"
  shows "map process_article (findall_desc ''PubmedArticle'' root) = map Inr papers"
proof -
  from assms(4)
    fetch_paper_details_body [where http_get = http_get and fromstring = fromstring, OF assms(1-3)]
  have "process_articles (findall_desc ''PubmedArticle'' root) [] = Inr papers" by simp
  from process_articles_append [OF this] show ?thesis by simp
qed

lemma map_Inr_nth:
  "map f xs = map Inr ys \<Longrightarrow> i < length xs \<Longrightarrow> i < length ys \<and> f (xs ! i) = Inr (ys ! i)"
  by (metis length_map nth_map)

subsection \<open>The example documents\<close>

lemma example_author_affiliation:
  "find_desc_child ''AffiliationInfo'' ''Affiliation'' (example_author t)
     = Some (Element ''Affiliation'' (Some t) [])"
  by (simp add: example_author_def find_desc_child_def findall_desc_def findall_child_def
        first_def)

lemma example_collective_affiliation:
  "find_desc_child ''AffiliationInfo'' ''Affiliation'' (example_collective t)
     = Some (Element ''Affiliation'' (Some t) [])"
  by (simp add: example_collective_def find_desc_child_def findall_desc_def
        findall_child_def first_def)

lemma example_author_last_name:
  "find_child ''LastName'' (example_author t) = Some (Element ''LastName'' (Some ''Doe'') [])"
  by (simp add: example_author_def find_child_def findall_child_def first_def)

subsection \<open>Authors without a heuristic keyword\<close>

text \<open>
  C1, as the code has it. An author whose affiliation text contains none of the four
  keywords adds nothing to the two lists: a returned state differs from the old one in
  the e-mail field at most. The e-mail assignment of lines 64 and 65 is not under the
  keyword test, so the field is left as it is only when the lower-cased text does not
  contain both \<^verbatim>\<open>corresponding\<close> and \<^verbatim>\<open>email\<close>; then the state is returned
  unchanged.
\<close>

theorem no_keyword_author:
  assumes "find_desc_child ''AffiliationInfo'' ''Affiliation'' author = Some affiliation"
      and "etext affiliation = Some original"
      and "\<not> list_ex (\<lambda>keyword. contains keyword (lower original)) keyword_list"
  shows "(\<forall>st'. process_author author st = Inr st' \<longrightarrow>
            non_academic_authors st' = non_academic_authors st
            \<and> company_affiliations st' = company_affiliations st)
         \<and> (\<not> (contains ''corresponding'' (lower original)
                 \<and> contains ''email'' (lower original)) \<longrightarrow>
            process_author author st = Inr st)"
  using assms
  by (auto simp: process_author_def Let_def split: list.splits)

theorem no_keyword_author_witness:
  "find_desc_child ''AffiliationInfo'' ''Affiliation''
       (example_author ''Dept. of Chemistry, Example University'')
     = Some (Element ''Affiliation'' (Some ''Dept. of Chemistry, Example University'') [])
   \<and> \<not> list_ex (\<lambda>keyword. contains keyword
           (lower ''Dept. of Chemistry, Example University'')) keyword_list
   \<and> \<not> (contains ''corresponding'' (lower ''Dept. of Chemistry, Example University'')
         \<and> contains ''email'' (lower ''Dept. of Chemistry, Example University''))
   \<and> process_author (example_author ''Dept. of Chemistry, Example University'')
         initial_state = Inr initial_state"
proof -
  let ?t = "''Dept. of Chemistry, Example University''"
  have low: "lower ?t = ''dept. of chemistry, example university''"
    by code_simp
  have aff: "find_desc_child ''AffiliationInfo'' ''Affiliation'' (example_author ?t)
               = Some (Element ''Affiliation'' (Some ?t) [])"
    by (rule example_author_affiliation)
  have atext: "etext (Element ''Affiliation'' (Some ?t) []) = Some ?t"
    by simp
  have nokw: "\<not> list_ex (\<lambda>keyword. contains keyword (lower ?t)) keyword_list"
    by (simp add: low keyword_list_def)
  have noguard: "\<not> (contains ''corresponding'' (lower ?t) \<and> contains ''email'' (lower ?t))"
    by (simp add: low)
  from no_keyword_author [OF aff atext nokw, of initial_state] noguard
  have "process_author (example_author ?t) initial_state = Inr initial_state"
    by blast
  with aff nokw noguard show ?thesis by blast
qed

text \<open>
  The claim as written fails: the affiliation text below contains no keyword, and
  processing its author changes the e-mail field from \<^verbatim>\<open>N/A\<close> to the address.
\<close>

theorem no_keyword_author_counterexample:
  "\<not> list_ex (\<lambda>keyword. contains keyword
         (lower ''Corresponding author, email: a@uni.edu'')) keyword_list
   \<and> process_author (example_author ''Corresponding author, email: a@uni.edu'')
        initial_state
      = Inr \<lparr>non_academic_authors = [], company_affiliations = [],
             corresponding_email = ''a@uni.edu''\<rparr>
   \<and> corresponding_email initial_state = ''N/A''"
proof -
  let ?t = "''Corresponding author, email: a@uni.edu''"
  have low: "lower ?t = ''corresponding author, email: a@uni.edu''"
    by code_simp
  have nokw: "\<not> list_ex (\<lambda>keyword. contains keyword (lower ?t)) keyword_list"
    by (simp add: low keyword_list_def)
  have run: "process_author (example_author ?t) initial_state
      = Inr \<lparr>non_academic_authors = [], company_affiliations = [],
             corresponding_email = ''a@uni.edu''\<rparr>"
    by code_simp
  from nokw run show ?thesis by (simp add: initial_state_def)
qed

subsection \<open>The default e-mail value\<close>

lemma process_author_email_kept:
  "\<not> sets_email author \<Longrightarrow> process_author author st = Inr st' \<Longrightarrow>
     corresponding_email st' = corresponding_email st"
  by (auto simp: process_author_def sets_email_def Let_def split: option.splits if_splits)

lemma process_authors_email_kept:
  "list_all (\<lambda>author. \<not> sets_email author) authors \<Longrightarrow>
   process_authors authors st = Inr st' \<Longrightarrow>
     corresponding_email st' = corresponding_email st"
proof (induction authors arbitrary: st)
  case Nil
  then show ?case by simp
next
  case (Cons a as)
  from Cons.prems(2) obtain st1 where a: "process_author a st = Inr st1"
    and as: "process_authors as st1 = Inr st'"
    by (auto split: sum.splits)
  from Cons.prems(1) have "\<not> sets_email a" and rest: "list_all (\<lambda>author. \<not> sets_email author) as"
    by simp_all
  from process_author_email_kept [OF this(1) a] Cons.IH [OF rest as] show ?case by simp
qed

lemma process_article_default_email:
  assumes "process_article article = Inr p"
      and "list_all (\<lambda>author. \<not> sets_email author) (findall_desc ''Author'' article)"
  shows "Corresponding_Author_Email p = ''N/A''"
proof -
  from assms(1) obtain st where
    st: "process_authors (findall_desc ''Author'' article) initial_state = Inr st"
    and p: "Corresponding_Author_Email p = corresponding_email st"
    by (auto simp: process_article_def Let_def split: option.splits sum.splits)
  from process_authors_email_kept [OF assms(2) st] p show ?thesis
    by (simp add: initial_state_def)
qed

text \<open>
  C2, as the code has it. When the request and the parse succeed and the function
  returns records, the record at position \<open>i\<close> comes from the article at position
  \<open>i\<close>; if no author of that article reaches the e-mail assignment, the record's
  e-mail field is the initial value of line 52, which is \<^verbatim>\<open>N/A\<close>.
\<close>

theorem default_email:
  assumes "paper_ids \<noteq> []"
      and "http_get PUBMED_FETCH_URL (fetch_params paper_ids) = Inr response"
      and "fromstring response = Inr root"
      and "fetch_paper_details http_get fromstring paper_ids = (tr, Inr papers)"
      and "i < length (findall_desc ''PubmedArticle'' root)"
      and "list_all (\<lambda>author. \<not> sets_email author)
             (findall_desc ''Author'' (findall_desc ''PubmedArticle'' root ! i))"
  shows "i < length papers \<and> Corresponding_Author_Email (papers ! i) = ''N/A''"
proof -
  from fetch_paper_details_papers [where http_get = http_get and fromstring = fromstring,
      OF assms(1-4)]
  have "map process_article (findall_desc ''PubmedArticle'' root) = map Inr papers" .
  from map_Inr_nth [OF this assms(5)]
  have len: "i < length papers"
    and p: "process_article (findall_desc ''PubmedArticle'' root ! i) = Inr (papers ! i)"
    by simp_all
  from len process_article_default_email [OF p assms(6)] show ?thesis by simp
qed

theorem default_email_witness:
  "[''1''] \<noteq> ([] :: string list)
   \<and> example_http PUBMED_FETCH_URL (fetch_params [''1'']) = Inr ''<PubmedArticleSet/>''
   \<and> fetch_paper_details example_http
        (\<lambda>response. Inr (example_root [example_author ''Example University'']))
        [''1'']
      = ([HttpGet PUBMED_FETCH_URL (fetch_params [''1''])],
         Inr [example_paper])
   \<and> (0::nat) < length (findall_desc ''PubmedArticle''
                        (example_root [example_author ''Example University'']))
   \<and> list_all (\<lambda>author. \<not> sets_email author)
        (findall_desc ''Author''
           (findall_desc ''PubmedArticle''
              (example_root [example_author ''Example University'']) ! 0))
   \<and> Corresponding_Author_Email ([example_paper] ! 0) = ''N/A''"
proof -
  let ?root = "example_root [example_author ''Example University'']"
  have ids: "[''1''] \<noteq> ([] :: string list)" by simp
  have get: "example_http PUBMED_FETCH_URL (fetch_params [''1'']) = Inr ''<PubmedArticleSet/>''"
    by (simp add: example_http_def)
  have parse: "(\<lambda>response :: string. (Inr ?root :: error + element)) ''<PubmedArticleSet/>''
                  = Inr ?root"
    by simp
  have run: "fetch_paper_details example_http (\<lambda>response. Inr ?root) [''1'']
      = ([HttpGet PUBMED_FETCH_URL (fetch_params [''1''])], Inr [example_paper])"
    by code_simp
  have len: "(0::nat) < length (findall_desc ''PubmedArticle'' ?root)"
    by code_simp
  have quiet: "list_all (\<lambda>author. \<not> sets_email author)
        (findall_desc ''Author'' (findall_desc ''PubmedArticle'' ?root ! 0))"
    by code_simp
  from default_email [where http_get = example_http and fromstring = "\<lambda>response. Inr ?root",
      OF ids get parse run len quiet]
  have "Corresponding_Author_Email ([example_paper] ! 0) = ''N/A''" by simp
  with ids get run len quiet show ?thesis by blast
qed

text \<open>
  The claim as written fails: for an article without authors the e-mail field of the
  record is \<^verbatim>\<open>N/A\<close>, not \<^verbatim>\<open>not available\<close>.
\<close>

theorem default_email_counterexample:
  "findall_desc ''Author'' (findall_desc ''PubmedArticle'' (example_root []) ! 0) = []
   \<and> fetch_paper_details example_http (\<lambda>response. Inr (example_root [])) [''1'']
      = ([HttpGet PUBMED_FETCH_URL (fetch_params [''1''])],
         Inr [\<lparr>PubmedID = Some ''1'', Title = Some ''N/A'',
               Publication_Date = Some ''N/A'', Non_academic_Authors = ''N/A'',
               Company_Affiliations = ''N/A'', Corresponding_Author_Email = ''N/A''\<rparr>])
   \<and> ''N/A'' \<noteq> ''not available''"
proof -
  have a: "findall_desc ''Author'' (findall_desc ''PubmedArticle'' (example_root []) ! 0) = []"
    by code_simp
  have b: "fetch_paper_details example_http (\<lambda>response. Inr (example_root [])) [''1'']
      = ([HttpGet PUBMED_FETCH_URL (fetch_params [''1''])],
         Inr [\<lparr>PubmedID = Some ''1'', Title = Some ''N/A'',
               Publication_Date = Some ''N/A'', Non_academic_Authors = ''N/A'',
               Company_Affiliations = ''N/A'', Corresponding_Author_Email = ''N/A''\<rparr>])"
    by code_simp
  from a b show ?thesis by simp
qed

subsection \<open>Failures of the two requests\<close>

text \<open>
  C3. When the search request fails with a \<open>RequestException\<close>, \<open>fetch_paper_ids\<close>
  prints the error and returns the empty list; when the fetch request fails with one,
  \<open>fetch_paper_details\<close> does the same. In both cases the result is a value
  (\<open>Inr\<close>), not an exception.
\<close>

theorem request_failure_recovered:
  "(http_get PUBMED_SEARCH_URL (search_params query max_results) = Inl (RequestException e)
      \<longrightarrow> fetch_paper_ids http_get json_idlist query max_results
            = ([HttpGet PUBMED_SEARCH_URL (search_params query max_results),
                Printed (''Error fetching paper IDs: '' @ e)], Inr []))
   \<and> (paper_ids \<noteq> []
        \<and> http_get PUBMED_FETCH_URL (fetch_params paper_ids) = Inl (RequestException e)
      \<longrightarrow> fetch_paper_details http_get fromstring paper_ids
            = ([HttpGet PUBMED_FETCH_URL (fetch_params paper_ids),
                Printed (''Error fetching paper details: '' @ e)], Inr []))"
  by (simp add: fetch_paper_ids_def fetch_paper_details_def)

theorem request_failure_recovered_witness:
  "failing_http PUBMED_SEARCH_URL (search_params ''cancer'' 10)
     = Inl (RequestException ''503 Server Error'')
   \<and> fetch_paper_ids failing_http (\<lambda>body. Inr []) ''cancer'' 10
     = ([HttpGet PUBMED_SEARCH_URL (search_params ''cancer'' 10),
         Printed ''Error fetching paper IDs: 503 Server Error''], Inr [])
   \<and> [''1'', ''2''] \<noteq> ([] :: string list)
   \<and> failing_http PUBMED_FETCH_URL (fetch_params [''1'', ''2''])
     = Inl (RequestException ''503 Server Error'')
   \<and> fetch_paper_details failing_http (\<lambda>response. Inl ParseError) [''1'', ''2'']
     = ([HttpGet PUBMED_FETCH_URL (fetch_params [''1'', ''2'']),
         Printed ''Error fetching paper details: 503 Server Error''], Inr [])"
proof -
  have s: "failing_http PUBMED_SEARCH_URL (search_params ''cancer'' 10)
             = Inl (RequestException ''503 Server Error'')"
    by (simp add: failing_http_def)
  have f: "failing_http PUBMED_FETCH_URL (fetch_params [''1'', ''2''])
             = Inl (RequestException ''503 Server Error'')"
    by (simp add: failing_http_def)
  have ids: "[''1'', ''2''] \<noteq> ([] :: string list)" by simp
  note r = request_failure_recovered [where http_get = failing_http
      and e = "''503 Server Error''" and query = "''cancer''" and max_results = 10
      and paper_ids = "[''1'', ''2'']" and json_idlist = "\<lambda>body. Inr []"
      and fromstring = "\<lambda>response. Inl ParseError"]
  from r s have a: "fetch_paper_ids failing_http (\<lambda>body. Inr []) ''cancer'' 10
     = ([HttpGet PUBMED_SEARCH_URL (search_params ''cancer'' 10),
         Printed ''Error fetching paper IDs: 503 Server Error''], Inr [])"
    by simp
  from r ids f have b: "fetch_paper_details failing_http (\<lambda>response. Inl ParseError) [''1'', ''2'']
     = ([HttpGet PUBMED_FETCH_URL (fetch_params [''1'', ''2'']),
         Printed ''Error fetching paper details: 503 Server Error''], Inr [])"
    by simp
  from s a ids f b show ?thesis by blast
qed

subsection \<open>An article without an identifier node\<close>

lemma process_article_no_pmid:
  "find_desc ''PMID'' article = None \<Longrightarrow> process_article article = Inl AttributeError"
  by (simp add: process_article_def)

text \<open>
  C4. When the request and the parse succeed and some article of the document has no
  \<^verbatim>\<open>PMID\<close> node, \<open>fetch_paper_details\<close> returns no list: an exception that the
  \<^verbatim>\<open>except\<close> clause does not catch leaves the function. It is the \<open>AttributeError\<close> of
  line 45, unless an earlier article has already raised one of the other two
  exceptions the loop can raise.
\<close>

theorem missing_pmid_raises:
  assumes "paper_ids \<noteq> []"
      and "http_get PUBMED_FETCH_URL (fetch_params paper_ids) = Inr response"
      and "fromstring response = Inr root"
      and "article \<in> set (findall_desc ''PubmedArticle'' root)"
      and "find_desc ''PMID'' article = None"
  shows "\<exists>e. fetch_paper_details http_get fromstring paper_ids
               = ([HttpGet PUBMED_FETCH_URL (fetch_params paper_ids)], Inl e)
             \<and> (e = AttributeError \<or> e = IndexError \<or> e = TypeError)"
proof -
  from process_articles_fail [OF assms(4) process_article_no_pmid [OF assms(5)]]
  obtain e where e: "process_articles (findall_desc ''PubmedArticle'' root) [] = Inl e"
    by blast
  from fetch_paper_details_body [where http_get = http_get and fromstring = fromstring,
      OF assms(1-3)] e
  have "fetch_paper_details http_get fromstring paper_ids
          = ([HttpGet PUBMED_FETCH_URL (fetch_params paper_ids)], Inl e)"
    by simp
  with process_articles_error [OF e] show ?thesis by blast
qed

theorem missing_pmid_raises_witness:
  "[''1''] \<noteq> ([] :: string list)
   \<and> example_http PUBMED_FETCH_URL (fetch_params [''1'']) = Inr ''<PubmedArticleSet/>''
   \<and> Element ''PubmedArticle'' None
        [Element ''MedlineCitation'' None
           [Element ''Article'' None [Element ''ArticleTitle'' (Some ''A title'') []]]]
      \<in> set (findall_desc ''PubmedArticle'' example_root_no_pmid)
   \<and> find_desc ''PMID''
        (Element ''PubmedArticle'' None
           [Element ''MedlineCitation'' None
              [Element ''Article'' None [Element ''ArticleTitle'' (Some ''A title'') []]]])
      = None
   \<and> fetch_paper_details example_http (\<lambda>response. Inr example_root_no_pmid) [''1'']
      = ([HttpGet PUBMED_FETCH_URL (fetch_params [''1''])], Inl AttributeError)"
proof -
  let ?article = "Element ''PubmedArticle'' None
        [Element ''MedlineCitation'' None
           [Element ''Article'' None [Element ''ArticleTitle'' (Some ''A title'') []]]]"
  have ids: "[''1''] \<noteq> ([] :: string list)" by simp
  have get: "example_http PUBMED_FETCH_URL (fetch_params [''1'']) = Inr ''<PubmedArticleSet/>''"
    by (simp add: example_http_def)
  have parse: "(\<lambda>response :: string. (Inr example_root_no_pmid :: error + element))
                  ''<PubmedArticleSet/>'' = Inr example_root_no_pmid"
    by simp
  have arts: "findall_desc ''PubmedArticle'' example_root_no_pmid = [?article]"
    by (simp add: example_root_no_pmid_def findall_desc_def)
  then have mem: "?article \<in> set (findall_desc ''PubmedArticle'' example_root_no_pmid)"
    by simp
  have none: "find_desc ''PMID'' ?article = None"
    by (simp add: find_desc_def findall_desc_def first_def)
  from missing_pmid_raises [where http_get = example_http
      and fromstring = "\<lambda>response. Inr example_root_no_pmid", OF ids get parse mem none]
  obtain e where run: "fetch_paper_details example_http
        (\<lambda>response. Inr example_root_no_pmid) [''1'']
      = ([HttpGet PUBMED_FETCH_URL (fetch_params [''1''])], Inl e)"
    by blast
  have "fetch_paper_details example_http (\<lambda>response. Inr example_root_no_pmid) [''1'']
      = ([HttpGet PUBMED_FETCH_URL (fetch_params [''1''])], Inl AttributeError)"
    by code_simp
  with run have "e = AttributeError" by simp
  with run have "fetch_paper_details example_http
        (\<lambda>response. Inr example_root_no_pmid) [''1'']
      = ([HttpGet PUBMED_FETCH_URL (fetch_params [''1''])], Inl AttributeError)"
    by simp
  with ids get mem none show ?thesis by blast
qed

subsection \<open>No identifiers\<close>

lemma search_events_no_fetch:
  "fetch_paper_ids http_get json_idlist query max_results = (tr, r) \<Longrightarrow>
     tr = [HttpGet PUBMED_SEARCH_URL (search_params query max_results)]
     \<or> (\<exists>e. tr = [HttpGet PUBMED_SEARCH_URL (search_params query max_results),
                     Printed (''Error fetching paper IDs: '' @ e)])"
  by (auto simp: fetch_paper_ids_def Let_def split: sum.splits error.splits)

lemma urls_differ: "PUBMED_SEARCH_URL \<noteq> PUBMED_FETCH_URL"
  by (simp add: PUBMED_SEARCH_URL_def PUBMED_FETCH_URL_def)

text \<open>
  C5. On the empty identifier list \<open>fetch_paper_details\<close> prints a notice and returns
  the empty list; its events hold no request. So whenever the search returns no
  identifier, the two calls of the command send the search request only and end with
  the empty record list, and the command as a whole sends no request to the fetch
  endpoint, prints no record and writes no file.
\<close>

theorem no_identifiers_no_fetch:
  "fetch_paper_details http_get fromstring [] = ([Printed ''No paper IDs provided.''], Inr [])
   \<and> (fetch_paper_ids http_get json_idlist query 10 = (tr, Inr []) \<longrightarrow>
        fetch_papers http_get json_idlist fromstring query
          = (tr @ [Printed ''No paper IDs provided.''], Inr [])
        \<and> snd (get_papers_list http_get json_idlist fromstring file_write query file debug) = Inr ()
        \<and> list_all (\<lambda>ev. (\<forall>params. ev \<noteq> HttpGet PUBMED_FETCH_URL params)
                          \<and> (\<forall>p. ev \<noteq> PrintedPaper p)
                          \<and> (\<forall>name table. ev \<noteq> ToCsv name table))
            (fst (get_papers_list http_get json_idlist fromstring file_write query file debug)))"
proof -
  have a: "fetch_paper_details http_get fromstring []
             = ([Printed ''No paper IDs provided.''], Inr [])"
    by (simp add: fetch_paper_details_def)
  have b: "fetch_papers http_get json_idlist fromstring query
             = (tr @ [Printed ''No paper IDs provided.''], Inr [])"
    if "fetch_paper_ids http_get json_idlist query 10 = (tr, Inr [])"
    using that a by (simp add: fetch_papers_def)
  have c: "list_all (\<lambda>ev. (\<forall>params. ev \<noteq> HttpGet PUBMED_FETCH_URL params)
                          \<and> (\<forall>p. ev \<noteq> PrintedPaper p)
                          \<and> (\<forall>name table. ev \<noteq> ToCsv name table)) tr"
    if "fetch_paper_ids http_get json_idlist query 10 = (tr, Inr [])"
    using search_events_no_fetch [OF that] urls_differ by auto
  have d: "snd (get_papers_list http_get json_idlist fromstring file_write query file debug) = Inr ()
      \<and> list_all (\<lambda>ev. (\<forall>params. ev \<noteq> HttpGet PUBMED_FETCH_URL params)
                          \<and> (\<forall>p. ev \<noteq> PrintedPaper p)
                          \<and> (\<forall>name table. ev \<noteq> ToCsv name table))
            (fst (get_papers_list http_get json_idlist fromstring file_write query file debug))"
    if "fetch_paper_ids http_get json_idlist query 10 = (tr, Inr [])"
    using b [OF that] c [OF that]
    by (simp add: get_papers_list_def Let_def save_to_csv_def split: option.splits list.splits)
  from a b d show ?thesis by blast
qed

theorem no_identifiers_no_fetch_witness:
  "fetch_paper_ids example_http (\<lambda>body. Inr []) ''no such topic'' 10
     = ([HttpGet PUBMED_SEARCH_URL (search_params ''no such topic'' 10)], Inr [])
   \<and> fetch_papers example_http (\<lambda>body. Inr []) (\<lambda>response. Inl ParseError) ''no such topic''
     = ([HttpGet PUBMED_SEARCH_URL (search_params ''no such topic'' 10),
         Printed ''No paper IDs provided.''], Inr [])
   \<and> snd (get_papers_list example_http (\<lambda>body. Inr []) (\<lambda>response. Inl ParseError)
            example_file_system ''no such topic'' (Some ''out.csv'') False) = Inr ()"
proof -
  have s: "fetch_paper_ids example_http (\<lambda>body. Inr []) ''no such topic'' 10
     = ([HttpGet PUBMED_SEARCH_URL (search_params ''no such topic'' 10)], Inr [])"
    by (simp add: fetch_paper_ids_def example_http_def)
  note r = no_identifiers_no_fetch [where http_get = example_http
      and json_idlist = "\<lambda>body. Inr []" and query = "''no such topic''"
      and tr = "[HttpGet PUBMED_SEARCH_URL (search_params ''no such topic'' 10)]"
      and fromstring = "\<lambda>response. Inl ParseError"
      and debug = False and ?file = "Some ''out.csv''"
      and file_write = example_file_system]
  from r s
  have a: "fetch_papers example_http (\<lambda>body. Inr []) (\<lambda>response. Inl ParseError) ''no such topic''
     = ([HttpGet PUBMED_SEARCH_URL (search_params ''no such topic'' 10)]
          @ [Printed ''No paper IDs provided.''], Inr [])"
    by blast
  from r s
  have b: "snd (get_papers_list example_http (\<lambda>body. Inr []) (\<lambda>response. Inl ParseError)
            example_file_system ''no such topic'' (Some ''out.csv'') False) = Inr ()"
    by blast
  from s a b show ?thesis by simp
qed

text \<open>The command has no handler of its own: an exception of either call leaves it.\<close>

lemma get_papers_list_propagates:
  "fetch_papers http_get json_idlist fromstring query = (tr, Inl e) \<Longrightarrow>
     snd (get_papers_list http_get json_idlist fromstring file_write query file debug) = Inl e"
  by (simp add: get_papers_list_def)

subsection \<open>The example of a matching author\<close>

lemma lower_biotech:
  "lower ''Biotech Corp, Corresponding, Email: jane@x.com''
     = ''biotech corp, corresponding, email: jane@x.com''"
  by code_simp

lemma split_biotech:
  "split ''biotech corp, corresponding, email: jane@x.com'' ''email:''
     = [''biotech corp, corresponding, '', '' jane@x.com'']"
  by (simp add: split_def)

lemma strip_jane: "strip '' jane@x.com'' = ''jane@x.com''"
  by (simp add: strip_def is_space_def)

text \<open>
  C6. An author with a last-name node whose affiliation text is
  \<^verbatim>\<open>Biotech Corp, Corresponding, Email: jane@x.com\<close>: the last name's text is
  appended to the first list, the affiliation text in its original case to the second,
  and the e-mail field becomes \<^verbatim>\<open>jane@x.com\<close>.
\<close>

theorem biotech_author:
  assumes "find_desc_child ''AffiliationInfo'' ''Affiliation'' author = Some affiliation"
      and "etext affiliation = Some ''Biotech Corp, Corresponding, Email: jane@x.com''"
      and "find_child ''LastName'' author = Some last_name"
  shows "process_author author st =
           Inr \<lparr>non_academic_authors = non_academic_authors st @ [etext last_name],
                company_affiliations =
                  company_affiliations st @ [''Biotech Corp, Corresponding, Email: jane@x.com''],
                corresponding_email = ''jane@x.com''\<rparr>"
  using assms
  by (simp add: process_author_def lower_biotech split_biotech strip_jane keyword_list_def)

theorem biotech_author_witness:
  "find_desc_child ''AffiliationInfo'' ''Affiliation''
       (example_author ''Biotech Corp, Corresponding, Email: jane@x.com'')
     = Some (Element ''Affiliation''
               (Some ''Biotech Corp, Corresponding, Email: jane@x.com'') [])
   \<and> find_child ''LastName''
         (example_author ''Biotech Corp, Corresponding, Email: jane@x.com'')
     = Some (Element ''LastName'' (Some ''Doe'') [])
   \<and> process_author (example_author ''Biotech Corp, Corresponding, Email: jane@x.com'')
         initial_state
     = Inr \<lparr>non_academic_authors = [Some ''Doe''],
            company_affiliations = [''Biotech Corp, Corresponding, Email: jane@x.com''],
            corresponding_email = ''jane@x.com''\<rparr>"
proof -
  let ?t = "''Biotech Corp, Corresponding, Email: jane@x.com''"
  have aff: "find_desc_child ''AffiliationInfo'' ''Affiliation'' (example_author ?t)
               = Some (Element ''Affiliation'' (Some ?t) [])"
    by (rule example_author_affiliation)
  have atext: "etext (Element ''Affiliation'' (Some ?t) []) = Some ?t"
    by simp
  have name: "find_child ''LastName'' (example_author ?t)
               = Some (Element ''LastName'' (Some ''Doe'') [])"
    by (rule example_author_last_name)
  from biotech_author [OF aff atext name, of initial_state]
  have "process_author (example_author ?t) initial_state
     = Inr \<lparr>non_academic_authors = [Some ''Doe''],
            company_affiliations = [?t],
            corresponding_email = ''jane@x.com''\<rparr>"
    by (simp add: initial_state_def)
  with aff name show ?thesis by blast
qed

subsection \<open>An article without a title node\<close>

lemma process_article_no_title:
  "find_desc ''ArticleTitle'' article = None \<Longrightarrow> process_article article = Inr p \<Longrightarrow>
     Title p = Some ''N/A''"
  by (auto simp: process_article_def Let_def split: option.splits sum.splits)

text \<open>
  C7. When the request and the parse succeed and the function returns records, the
  record of an article without an \<^verbatim>\<open>ArticleTitle\<close> node has the title \<^verbatim>\<open>N/A\<close>.
\<close>

theorem missing_title:
  assumes "paper_ids \<noteq> []"
      and "http_get PUBMED_FETCH_URL (fetch_params paper_ids) = Inr response"
      and "fromstring response = Inr root"
      and "fetch_paper_details http_get fromstring paper_ids = (tr, Inr papers)"
      and "i < length (findall_desc ''PubmedArticle'' root)"
      and "find_desc ''ArticleTitle'' (findall_desc ''PubmedArticle'' root ! i) = None"
  shows "i < length papers \<and> Title (papers ! i) = Some ''N/A''"
proof -
  from fetch_paper_details_papers [where http_get = http_get and fromstring = fromstring,
      OF assms(1-4)]
  have "map process_article (findall_desc ''PubmedArticle'' root) = map Inr papers" .
  from map_Inr_nth [OF this assms(5)]
  have len: "i < length papers"
    and p: "process_article (findall_desc ''PubmedArticle'' root ! i) = Inr (papers ! i)"
    by simp_all
  from len process_article_no_title [OF assms(6) p] show ?thesis by simp
qed

theorem missing_title_witness:
  "[''1''] \<noteq> ([] :: string list)
   \<and> example_http PUBMED_FETCH_URL (fetch_params [''1'']) = Inr ''<PubmedArticleSet/>''
   \<and> fetch_paper_details example_http (\<lambda>response. Inr (example_root [])) [''1'']
      = ([HttpGet PUBMED_FETCH_URL (fetch_params [''1''])], Inr [example_paper])
   \<and> (0::nat) < length (findall_desc ''PubmedArticle'' (example_root []))
   \<and> find_desc ''ArticleTitle'' (findall_desc ''PubmedArticle'' (example_root []) ! 0) = None
   \<and> Title ([example_paper] ! 0) = Some ''N/A''"
proof -
  let ?root = "example_root []"
  have ids: "[''1''] \<noteq> ([] :: string list)" by simp
  have get: "example_http PUBMED_FETCH_URL (fetch_params [''1'']) = Inr ''<PubmedArticleSet/>''"
    by (simp add: example_http_def)
  have parse: "(\<lambda>response :: string. (Inr ?root :: error + element)) ''<PubmedArticleSet/>''
                  = Inr ?root"
    by simp
  have run: "fetch_paper_details example_http (\<lambda>response. Inr ?root) [''1'']
      = ([HttpGet PUBMED_FETCH_URL (fetch_params [''1''])], Inr [example_paper])"
    by code_simp
  have len: "(0::nat) < length (findall_desc ''PubmedArticle'' ?root)"
    by code_simp
  have none: "find_desc ''ArticleTitle'' (findall_desc ''PubmedArticle'' ?root ! 0) = None"
    by code_simp
  from missing_title [where http_get = example_http and fromstring = "\<lambda>response. Inr ?root",
      OF ids get parse run len none]
  have "Title ([example_paper] ! 0) = Some ''N/A''" by simp
  with ids get run len none show ?thesis by blast
qed

subsection \<open>The sink\<close>

text \<open>
  C8, as the code has it. On the empty list \<open>save_to_csv\<close> only prints a notice: it
  writes no file. On a non-empty list, when the write to the destination succeeds, it
  writes one table to the file, the header row followed by one row per record in
  order, and prints where the results went.
\<close>

theorem sink_rows:
  "save_to_csv file_write [] filename = ([Printed ''No papers to save.''], Inr ())
   \<and> (papers \<noteq> [] \<and> file_write filename = None \<longrightarrow>
        save_to_csv file_write papers filename
          = ([ToCsv filename (csv_header # map csv_row papers),
              Printed (''Results saved to '' @ filename)], Inr ())
        \<and> length (to_csv papers) = 1 + length papers)"
  by (simp add: save_to_csv_def to_csv_def)

theorem sink_rows_witness:
  "[example_paper] \<noteq> []
   \<and> example_file_system ''out.csv'' = None
   \<and> save_to_csv example_file_system [example_paper] ''out.csv''
     = ([ToCsv ''out.csv''
           [[''PubmedID'', ''Title'', ''Publication Date'', ''Non-academic Author(s)'',
             ''Company Affiliation(s)'', ''Corresponding Author Email''],
            [''1'', ''N/A'', ''N/A'', ''N/A'', ''N/A'', ''N/A'']],
         Printed ''Results saved to out.csv''], Inr ())"
proof -
  have ne: "[example_paper] \<noteq> []" by simp
  have ok: "example_file_system ''out.csv'' = None"
    by (simp add: example_file_system_def)
  from sink_rows [of example_file_system "''out.csv''" "[example_paper]"] ne ok
  have "save_to_csv example_file_system [example_paper] ''out.csv''
          = ([ToCsv ''out.csv'' (csv_header # map csv_row [example_paper]),
              Printed (''Results saved to '' @ ''out.csv'')], Inr ())"
    by blast
  with ne ok show ?thesis
    by (simp add: csv_header_def csv_row_def cell_def example_paper_def)
qed

text \<open>
  The claim as written fails: for a non-empty list and a path in a directory that
  does not exist, the write raises, no table is written and nothing is printed.
\<close>

theorem sink_rows_counterexample:
  "[example_paper] \<noteq> []
   \<and> save_to_csv example_file_system [example_paper] ''/no/such/dir/out.csv''
     = ([], Inl OSError)"
  by (simp add: save_to_csv_def example_file_system_def)

text \<open>The command passes the exception of the write on, after the events of the fetch.\<close>

lemma get_papers_list_write_fails:
  "fetch_papers http_get json_idlist fromstring query = (tr, Inr papers) \<Longrightarrow>
   papers \<noteq> [] \<Longrightarrow> file_write (c # cs) = Some e \<Longrightarrow>
     snd (get_papers_list http_get json_idlist fromstring file_write query (Some (c # cs)) debug)
       = Inl e"
  by (simp add: get_papers_list_def Let_def save_to_csv_def)

subsection \<open>The e-mail assignment without the separator\<close>

lemma process_author_index_error:
  assumes "find_desc_child ''AffiliationInfo'' ''Affiliation'' author = Some affiliation"
      and "etext affiliation = Some original"
      and "contains ''corresponding'' (lower original)"
      and "contains ''email'' (lower original)"
      and "\<not> contains ''email:'' (lower original)"
  shows "process_author author st = Inl IndexError"
  using assms by (simp add: process_author_def Let_def split_absent)

text \<open>
  C9. Take a document whose first article has an identifier node and whose first
  author has an affiliation text that, lower-cased, contains \<^verbatim>\<open>corresponding\<close> and
  \<^verbatim>\<open>email\<close> but not \<^verbatim>\<open>email:\<close>. Then the split of line 65 has one piece, the
  index 1 is out of range, and the \<open>IndexError\<close> leaves \<open>fetch_paper_details\<close>
  uncaught. The instance after the theorem is the affiliation text of the claim.
\<close>

theorem email_without_separator:
  assumes "paper_ids \<noteq> []"
      and "http_get PUBMED_FETCH_URL (fetch_params paper_ids) = Inr response"
      and "fromstring response = Inr root"
      and "findall_desc ''PubmedArticle'' root = article # articles"
      and "find_desc ''PMID'' article = Some pmid"
      and "findall_desc ''Author'' article = author # authors"
      and "find_desc_child ''AffiliationInfo'' ''Affiliation'' author = Some affiliation"
      and "etext affiliation = Some original"
      and "contains ''corresponding'' (lower original)"
      and "contains ''email'' (lower original)"
      and "\<not> contains ''email:'' (lower original)"
  shows "fetch_paper_details http_get fromstring paper_ids
           = ([HttpGet PUBMED_FETCH_URL (fetch_params paper_ids)], Inl IndexError)"
proof -
  from process_author_index_error [OF assms(7-11)]
  have "process_author author initial_state = Inl IndexError" .
  with assms(6) have "process_authors (findall_desc ''Author'' article) initial_state
                        = Inl IndexError"
    by simp
  with assms(5) have "process_article article = Inl IndexError"
    by (simp add: process_article_def Let_def)
  with assms(4) have "process_articles (findall_desc ''PubmedArticle'' root) []
                        = Inl IndexError"
    by simp
  with fetch_paper_details_body [where http_get = http_get and fromstring = fromstring,
      OF assms(1-3)]
  show ?thesis by simp
qed

theorem email_without_separator_witness:
  "contains ''corresponding''
     (lower ''Corresponding author, e-mail withheld, University Email Office'')
   \<and> contains ''email''
     (lower ''Corresponding author, e-mail withheld, University Email Office'')
   \<and> \<not> contains ''email:''
     (lower ''Corresponding author, e-mail withheld, University Email Office'')
   \<and> fetch_paper_details example_http
       (\<lambda>response. Inr (example_root
          [example_author
             ''Corresponding author, e-mail withheld, University Email Office'']))
       [''1'']
     = ([HttpGet PUBMED_FETCH_URL (fetch_params [''1''])], Inl IndexError)"
proof -
  let ?t = "''Corresponding author, e-mail withheld, University Email Office''"
  let ?root = "example_root [example_author ?t]"
  let ?medline = "Element ''MedlineCitation'' None
             [Element ''PMID'' (Some ''1'') [],
              Element ''Article'' None [Element ''AuthorList'' None [example_author ?t]]]"
  have low: "lower ?t = ''corresponding author, e-mail withheld, university email office''"
    by code_simp
  have c1: "contains ''corresponding'' (lower ?t)" by (simp add: low)
  have c2: "contains ''email'' (lower ?t)" by (simp add: low)
  have c3: "\<not> contains ''email:'' (lower ?t)" by (simp add: low)
  have ids: "[''1''] \<noteq> ([] :: string list)" by simp
  have get: "example_http PUBMED_FETCH_URL (fetch_params [''1'']) = Inr ''<PubmedArticleSet/>''"
    by (simp add: example_http_def)
  have parse: "(\<lambda>response :: string. (Inr ?root :: error + element)) ''<PubmedArticleSet/>''
                  = Inr ?root"
    by simp
  have arts: "findall_desc ''PubmedArticle'' ?root = [Element ''PubmedArticle'' None [?medline]]"
    by (simp add: example_root_def example_author_def findall_desc_def)
  have pmid: "find_desc ''PMID'' (Element ''PubmedArticle'' None [?medline])
                = Some (Element ''PMID'' (Some ''1'') [])"
    by (simp add: find_desc_def findall_desc_def first_def)
  have auths: "findall_desc ''Author'' (Element ''PubmedArticle'' None [?medline])
                 = [example_author ?t]"
    by (simp add: findall_desc_def example_author_def)
  have aff: "find_desc_child ''AffiliationInfo'' ''Affiliation'' (example_author ?t)
               = Some (Element ''Affiliation'' (Some ?t) [])"
    by (rule example_author_affiliation)
  have atext: "etext (Element ''Affiliation'' (Some ?t) []) = Some ?t"
    by simp
  from email_without_separator [where http_get = example_http
      and fromstring = "\<lambda>response. Inr ?root",
      OF ids get parse arts pmid auths aff atext c1 c2 c3]
  have "fetch_paper_details example_http (\<lambda>response. Inr ?root) [''1'']
     = ([HttpGet PUBMED_FETCH_URL (fetch_params [''1''])], Inl IndexError)" .
  with c1 c2 c3 show ?thesis by blast
qed

subsection \<open>The lengths of the two lists\<close>

lemma process_author_lengths:
  "process_author author st = Inr st' \<Longrightarrow>
   length (non_academic_authors st) \<le> length (company_affiliations st) \<Longrightarrow>
   length (non_academic_authors st') \<le> length (company_affiliations st')"
  by (auto simp: process_author_def Let_def split: option.splits if_splits list.splits)

lemma process_authors_lengths:
  "process_authors authors st = Inr st' \<Longrightarrow>
   length (non_academic_authors st) \<le> length (company_affiliations st) \<Longrightarrow>
   length (non_academic_authors st') \<le> length (company_affiliations st')"
proof (induction authors arbitrary: st)
  case Nil
  then show ?case by simp
next
  case (Cons a as)
  from Cons.prems(1) obtain st1 where a: "process_author a st = Inr st1"
    and as: "process_authors as st1 = Inr st'"
    by (auto split: sum.splits)
  from process_author_lengths [OF a Cons.prems(2)] Cons.IH [OF as] show ?case by simp
qed

text \<open>
  C10. When the author loop of an article ends, the list of company affiliations is
  at least as long as the list of non-academic authors: a keyword match always appends
  an affiliation and appends a name only when there is a \<^verbatim>\<open>LastName\<close> node. These
  are the two lists that lines 71 and 72 join.
\<close>

theorem affiliations_at_least_authors:
  assumes "process_authors authors initial_state = Inr st"
  shows "length (non_academic_authors st) \<le> length (company_affiliations st)"
  using process_authors_lengths [OF assms] by (simp add: initial_state_def)

theorem affiliations_at_least_authors_witness:
  "process_authors
     [example_author ''Acme Biotech Inc.'', example_collective ''Trial Company Ltd.'']
     initial_state
     = Inr \<lparr>non_academic_authors = [Some ''Doe''],
            company_affiliations = [''Acme Biotech Inc.'', ''Trial Company Ltd.''],
            corresponding_email = ''N/A''\<rparr>
   \<and> length [Some ''Doe''] \<le> length [''Acme Biotech Inc.'', ''Trial Company Ltd.'']"
proof -
  have run: "process_authors
     [example_author ''Acme Biotech Inc.'', example_collective ''Trial Company Ltd.'']
     initial_state
     = Inr \<lparr>non_academic_authors = [Some ''Doe''],
            company_affiliations = [''Acme Biotech Inc.'', ''Trial Company Ltd.''],
            corresponding_email = ''N/A''\<rparr>"
    by code_simp
  from affiliations_at_least_authors [OF run]
  have "length [Some ''Doe''] \<le> length [''Acme Biotech Inc.'', ''Trial Company Ltd.'']"
    by simp
  with run show ?thesis by blast
qed


end
